theory Spec2Isabelle
  imports Complex_Main
begin

section \<open>The parallel-coordinates actor of vtkParallelCoordinatesActor.cxx\<close>

text \<open>
  The development embeds \<^verbatim>\<open>vtkParallelCoordinatesActor::Initialize\<close>,
  \<^verbatim>\<open>RenderOverlay\<close>, \<^verbatim>\<open>RenderOpaqueGeometry\<close> and \<^verbatim>\<open>PlaceAxes\<close>.

  Conventions of the embedding.
  \<^item> C \<^verbatim>\<open>float\<close> and \<^verbatim>\<open>double\<close> values are real numbers; infinities and NaN are not
    modelled. Where a value is compared or plotted the arithmetic is exact. Where it is
    converted to \<^verbatim>\<open>int\<close> (line 414) every conversion and operation rounds to single
    precision, since the rounding moves the integer.
  \<^item> \<^verbatim>\<open>int\<close> and \<^verbatim>\<open>vtkIdType\<close> values are mathematical integers; the sums and
    differences the code forms on them are assumed not to overflow.
  \<^item> A pointer member is an \<open>option\<close>: \<open>None\<close> is \<^verbatim>\<open>NULL\<close>. An array allocated with
    \<^verbatim>\<open>new T[n]\<close> is a list of length \<open>n\<close>.
  \<^item> Text properties, 2D properties and mappers are handed through to the rendering
    framework unchanged and are left out.
\<close>

subsection \<open>Constants\<close>

text \<open>
  Modelled from the spec: the "sanity upper bound" on the axis count and the "+infinity"
  start value of the range scan. \<^verbatim>\<open>VTK_LARGE_ID\<close> and \<^verbatim>\<open>VTK_LARGE_FLOAT\<close> are macros of
  VTK's system headers, which are not part of the sources at hand. The values are those
  of a build with 32-bit ids; only the sample layouts are evaluated with them.
\<close>

definition VTK_LARGE_ID :: int where
  "VTK_LARGE_ID = 2147483647"

definition VTK_LARGE_FLOAT :: real where
  "VTK_LARGE_FLOAT = 10 ^ 38"

datatype IndependentVariablesMode = VTK_IV_COLUMN | VTK_IV_ROW

subsection \<open>External collaborators\<close>

text \<open>
  Modelled from the spec: the field source (\<^verbatim>\<open>vtkFieldData\<close> is not part of the sources
  at hand). It provides the variable count \<^verbatim>\<open>GetNumberOfComponents()\<close>, the tuple count
  \<^verbatim>\<open>GetArray(i)->GetNumberOfTuples()\<close> of each of its arrays, and the value accessor
  \<^verbatim>\<open>GetComponent(i, j)\<close> (tuple \<open>i\<close>, component \<open>j\<close>).
\<close>

record vtkFieldData =
  NumberOfComponents :: int
  ArrayNumberOfTuples :: "int list"
  Component :: "int \<Rightarrow> int \<Rightarrow> real"

record vtkDataObject =
  FieldData :: "vtkFieldData option"

text \<open>
  Modelled from the spec: the axis decoration, which "receives (range_i, x_i, Ymin, Ymax)
  and an externally supplied label count/format string" (\<^verbatim>\<open>vtkAxisActor2D\<close> is not part
  of the sources at hand). It is reduced to the attributes \<^verbatim>\<open>PlaceAxes\<close> sets.
  \<open>vtkAxisActor2D_New\<close> stands for \<^verbatim>\<open>vtkAxisActor2D::New()\<close>; its defaults belong to
  the rendering framework, and \<^verbatim>\<open>PlaceAxes\<close> overwrites every attribute kept here.
\<close>

record vtkAxisActor2D =
  Point1 :: "real \<times> real"
  Point2 :: "real \<times> real"
  Range :: "real \<times> real"
  AdjustLabels :: bool
  AxisNumberOfLabels :: int
  AxisLabelFormat :: string

definition vtkAxisActor2D_New :: vtkAxisActor2D where
  "vtkAxisActor2D_New =
     \<lparr>Point1 = (0, 0), Point2 = (0.75, 0), Range = (0, 1), AdjustLabels = True,
      AxisNumberOfLabels = 5, AxisLabelFormat = ''%-#6.3g''\<rparr>"

text \<open>
  Modelled from the spec: the geometry handed to the consumer, "the point list and the
  polyline index sets" (\<^verbatim>\<open>vtkPolyData\<close>, \<^verbatim>\<open>vtkPoints\<close> and \<^verbatim>\<open>vtkCellArray\<close> are not part of
  the sources at hand). A cell array keeps what the calls hand to it, in order, as
  VTK's flat connectivity list does: \<^verbatim>\<open>InsertNextCell(npts)\<close> appends the vertex count
  \<open>npts\<close> announced for a new cell, \<^verbatim>\<open>InsertCellPoint(id)\<close> appends a point id. A reader
  of the list takes a count and then that many ids, cell after cell.
\<close>

type_synonym point = "real \<times> real \<times> real"

record vtkCellArray =
  Ia :: "int list"
  NumberOfCells :: int

record vtkPolyData =
  Points :: "point list"
  Lines :: vtkCellArray

definition vtkCellArray_New :: vtkCellArray where
  "vtkCellArray_New = \<lparr>Ia = [], NumberOfCells = 0\<rparr>"

definition InsertNextCell :: "int \<Rightarrow> vtkCellArray \<Rightarrow> vtkCellArray" where
  "InsertNextCell npts ca = \<lparr>Ia = Ia ca @ [npts], NumberOfCells = NumberOfCells ca + 1\<rparr>"

definition InsertCellPoint :: "int \<Rightarrow> vtkCellArray \<Rightarrow> vtkCellArray" where
  "InsertCellPoint ident ca = ca\<lparr>Ia := Ia ca @ [ident]\<rparr>"

text \<open>\<^verbatim>\<open>vtkPoints::InsertNextPoint\<close> appends the point and returns its index.\<close>

definition InsertNextPoint :: "point \<Rightarrow> point list \<Rightarrow> point list \<times> int" where
  "InsertNextPoint x pts = (pts @ [x], int (length pts))"

text \<open>
  Modelled from the spec: the geometry consumer taking "the polyline index sets" out of
  the cell array (\<^verbatim>\<open>vtkCellArray\<close>'s traversal is not part of the sources at hand). It
  reads a count, then that many point ids, and goes on behind them.
\<close>

function ReadCells :: "int list \<Rightarrow> int list list" where
  "ReadCells [] = []"
| "ReadCells (npts # ia) = take (nat npts) ia # ReadCells (drop (nat npts) ia)"
  by pat_completeness auto
termination
  by (relation "measure length") auto

subsection \<open>The actor\<close>

record vtkParallelCoordinatesActor =
  IndependentVariables :: IndependentVariablesMode
  N :: int
  Input :: "vtkDataObject option"
  Axes :: "vtkAxisActor2D list option"
  Mins :: "real list option"
  Maxs :: "real list option"
  Xs :: "int list option"
  YMin :: int
  YMax :: int
  Title :: "string option"
  TitlePosition :: "real \<times> real"
  NumberOfLabels :: int
  LabelFormat :: string
  PlotData :: vtkPolyData

text \<open>
  The constructor (lines 37-87). It does not initialise \<^verbatim>\<open>YMin\<close> and \<^verbatim>\<open>YMax\<close>, nor the
  position of the title actor: whatever they hold is a parameter here.
\<close>

definition vtkParallelCoordinatesActor_New ::
    "int \<Rightarrow> int \<Rightarrow> real \<times> real \<Rightarrow> vtkParallelCoordinatesActor" where
  "vtkParallelCoordinatesActor_New y0 y1 tp =
     \<lparr>IndependentVariables = VTK_IV_COLUMN, N = 0, Input = None, Axes = None,
      Mins = None, Maxs = None, Xs = None, YMin = y0, YMax = y1, Title = None,
      TitlePosition = tp, NumberOfLabels = 2, LabelFormat = ''%-#6.3g'',
      PlotData = \<lparr>Points = [], Lines = vtkCellArray_New\<rparr>\<rparr>"

text \<open>
  \<^verbatim>\<open>Initialize\<close> (lines 127-145): the arrays are released only under the test of
  \<^verbatim>\<open>Axes\<close>; \<^verbatim>\<open>N\<close> is reset in every case.
\<close>

definition Initialize :: "vtkParallelCoordinatesActor \<Rightarrow> vtkParallelCoordinatesActor" where
  "Initialize this =
     (let this = (if Axes this \<noteq> None
                  then this\<lparr>Axes := None, Mins := None, Maxs := None, Xs := None\<rparr>
                  else this)
      in this\<lparr>N := 0\<rparr>)"

subsection \<open>Loops\<close>

text \<open>
  \<^verbatim>\<open>for (i = i0; i < n; i++) body\<close> on a state \<open>s\<close>. The counter is an integer, as in
  the source; the loop ends because \<open>n - i\<close> decreases.
\<close>

function for_loop :: "int \<Rightarrow> int \<Rightarrow> (int \<Rightarrow> 's \<Rightarrow> 's) \<Rightarrow> 's \<Rightarrow> 's" where
  "for_loop i n body s = (if i < n then for_loop (i + 1) n body (body i s) else s)"
  by pat_completeness auto
termination
  by (relation "measure (\<lambda>(i, n, body, s). nat (n - i))") auto

declare for_loop.simps [simp del]

subsection \<open>PlaceAxes, phase by phase\<close>

text \<open>Lines 301-312: the number of rows is the least tuple count, starting from
  \<^verbatim>\<open>VTK_LARGE_ID\<close>.\<close>

definition CountRows :: "vtkFieldData \<Rightarrow> int" where
  "CountRows field =
     for_loop 0 (int (length (ArrayNumberOfTuples field)))
       (\<lambda>i numRows.
          let numTuples = ArrayNumberOfTuples field ! nat i
          in if numTuples < numRows then numTuples else numRows)
       VTK_LARGE_ID"

text \<open>Lines 315-322: the number of independent variables.\<close>

definition CountVariables :: "IndependentVariablesMode \<Rightarrow> vtkFieldData \<Rightarrow> int" where
  "CountVariables mode field =
     (if mode = VTK_IV_COLUMN then NumberOfComponents field else CountRows field)"

text \<open>Lines 333-339: fresh range arrays. The slots of a new array are indeterminate
  until the loop writes them; \<open>0\<close> stands for that content.\<close>

definition InitRanges :: "int \<Rightarrow> real list \<times> real list" where
  "InitRanges n =
     for_loop 0 n
       (\<lambda>i (mins, maxs). (mins[nat i := VTK_LARGE_FLOAT], maxs[nat i := - VTK_LARGE_FLOAT]))
       (replicate (nat n) 0, replicate (nat n) 0)"

text \<open>Lines 348-355 and 366-373: one value \<open>v\<close> seen for range index \<open>j\<close>.\<close>

definition UpdateRange :: "real \<Rightarrow> int \<Rightarrow> real list \<times> real list \<Rightarrow> real list \<times> real list" where
  "UpdateRange v j mm =
     (case mm of (mins, maxs) \<Rightarrow>
        let mins = (if v < mins ! nat j then mins[nat j := v] else mins);
            maxs = (if v > maxs ! nat j then maxs[nat j := v] else maxs)
        in (mins, maxs))"

text \<open>Lines 341-376: the scan of the table, by column or by row.\<close>

definition ScanRanges ::
    "IndependentVariablesMode \<Rightarrow> vtkFieldData \<Rightarrow> int \<Rightarrow> int \<Rightarrow>
     real list \<times> real list \<Rightarrow> real list \<times> real list" where
  "ScanRanges mode field numColumns numRows mm =
     (if mode = VTK_IV_COLUMN
      then for_loop 0 numColumns
             (\<lambda>j. for_loop 0 numRows (\<lambda>i. UpdateRange (Component field i j) j)) mm
      else for_loop 0 numRows
             (\<lambda>j. for_loop 0 numColumns (\<lambda>i. UpdateRange (Component field j i) j)) mm)"

text \<open>Lines 386-402: one axis decoration per independent variable.\<close>

definition CreateAxes ::
    "vtkParallelCoordinatesActor \<Rightarrow> int \<Rightarrow> real list \<Rightarrow> real list \<Rightarrow> vtkAxisActor2D list" where
  "CreateAxes this n mins maxs =
     for_loop 0 n
       (\<lambda>i axes. axes[nat i := vtkAxisActor2D_New
          \<lparr>Range := (mins ! nat i, maxs ! nat i), AdjustLabels := False,
           AxisNumberOfLabels := NumberOfLabels this, AxisLabelFormat := LabelFormat this\<rparr>])
       (replicate (nat n) vtkAxisActor2D_New)"

text \<open>
  Single precision (IEEE 754 binary32, rounding to nearest, ties to even). A value between
  \<open>2 ^ e\<close> and \<open>2 ^ (e + 1)\<close> is rounded to a multiple of the quantum \<open>2 ^ (e - 23)\<close>; the
  exponent \<open>e\<close> stays between \<open>-126\<close> (below it the numbers are subnormal, with the
  quantum \<open>2 ^ (- 149)\<close>) and \<open>127\<close>. Overflow to infinity, from \<open>2 ^ 128\<close> on, is not
  modelled. The two searches start in the binade of 1, with the quantum \<open>2 ^ (- 23)\<close>.
\<close>

definition round_half_even :: "real \<Rightarrow> int" where
  "round_half_even r =
     (let f = \<lfloor>r\<rfloor>; d = r - real_of_int f
      in if d < 1 / 2 then f else if 1 / 2 < d then f + 1 else if even f then f else f + 1)"

fun quantum_up :: "nat \<Rightarrow> real \<Rightarrow> real \<Rightarrow> real" where
  "quantum_up 0 x q = q"
| "quantum_up (Suc k) x q = (if 2 \<le> x then quantum_up k (x / 2) (2 * q) else q)"

fun quantum_down :: "nat \<Rightarrow> real \<Rightarrow> real \<Rightarrow> real" where
  "quantum_down 0 x q = q"
| "quantum_down (Suc k) x q = (if x < 1 then quantum_down k (2 * x) (q / 2) else q)"

definition quantum :: "real \<Rightarrow> real" where
  "quantum x =
     (if 1 \<le> \<bar>x\<bar> then quantum_up 127 \<bar>x\<bar> (1 / 2 ^ 23)
      else quantum_down 126 \<bar>x\<bar> (1 / 2 ^ 23))"

definition binary32 :: "real \<Rightarrow> real" where
  "binary32 x = real_of_int (round_half_even (x / quantum x)) * quantum x"

text \<open>The conversion \<^verbatim>\<open>(int)\<close> of a floating-point value truncates towards zero.\<close>

definition float_to_int :: "real \<Rightarrow> int" where
  "float_to_int r = (if 0 \<le> r then \<lfloor>r\<rfloor> else \<lceil>r\<rceil>)"

text \<open>
  Line 414: the X position of axis \<open>i\<close> of \<open>n\<close>. The operands \<^verbatim>\<open>i\<close>, \<^verbatim>\<open>N\<close>, \<^verbatim>\<open>p2[0]-p1[0]\<close>
  and \<^verbatim>\<open>p1[0]\<close> are converted to \<^verbatim>\<open>float\<close>; the quotient, the product and the sum are
  each rounded to \<^verbatim>\<open>float\<close>; the sum is converted to \<^verbatim>\<open>int\<close>.
\<close>

definition AxisXFloat :: "int \<Rightarrow> int \<Rightarrow> int \<Rightarrow> int \<Rightarrow> real" where
  "AxisXFloat p1x p2x n i =
     binary32 (binary32 (real_of_int p1x) +
       binary32 (binary32 (binary32 (real_of_int i) / binary32 (real_of_int n)) *
                 binary32 (real_of_int (p2x - p1x))))"

definition AxisX :: "int \<Rightarrow> int \<Rightarrow> int \<Rightarrow> int \<Rightarrow> int" where
  "AxisX p1x p2x n i = float_to_int (AxisXFloat p1x p2x n i)"

text \<open>Lines 403-417: the positions of the axes in the box with corners \<open>p1\<close>, \<open>p2\<close>.\<close>

definition PositionAxes ::
    "int \<Rightarrow> int \<times> int \<Rightarrow> int \<times> int \<Rightarrow> vtkAxisActor2D list \<Rightarrow> int list \<times> vtkAxisActor2D list" where
  "PositionAxes n p1 p2 axes =
     for_loop 0 n
       (\<lambda>i (xs, axes).
          let xs = xs[nat i := AxisX (fst p1) (fst p2) n i];
              x = real_of_int (xs ! nat i)
          in (xs, axes[nat i := (axes ! nat i)
                \<lparr>Point1 := (x, real_of_int (snd p1)), Point2 := (x, real_of_int (snd p2))\<rparr>]))
       (replicate (nat n) 0, axes)"

text \<open>Lines 438-447 and 463-472: the height of a vertex.\<close>

definition VertexY :: "real \<Rightarrow> real \<Rightarrow> real \<Rightarrow> int \<Rightarrow> int \<Rightarrow> real" where
  "VertexY v mn mx ymin ymax =
     (if mx - mn = 0
      then 0.5 * real_of_int (ymax - ymin)
      else real_of_int ymin + ((v - mn) / (mx - mn)) * real_of_int (ymax - ymin))"

text \<open>Lines 427 and 436-447: the point \<^verbatim>\<open>x\<close> for the value \<open>v\<close> on axis \<open>i\<close>. The third
  coordinate keeps the \<open>0.0\<close> of line 427.\<close>

definition Vertex ::
    "int list \<Rightarrow> real list \<Rightarrow> real list \<Rightarrow> int \<Rightarrow> int \<Rightarrow> real \<Rightarrow> int \<Rightarrow> point" where
  "Vertex xs mins maxs ymin ymax v i =
     (real_of_int (xs ! nat i), VertexY v (mins ! nat i) (maxs ! nat i) ymin ymax, 0)"

text \<open>Lines 436-449 and 461-474: the body of the inner loop.\<close>

definition PlotVertex ::
    "int list \<Rightarrow> real list \<Rightarrow> real list \<Rightarrow> int \<Rightarrow> int \<Rightarrow> real \<Rightarrow> int \<Rightarrow>
     point list \<times> vtkCellArray \<Rightarrow> point list \<times> vtkCellArray" where
  "PlotVertex xs mins maxs ymin ymax v i g =
     (case g of (pts, lines) \<Rightarrow>
        let x = Vertex xs mins maxs ymin ymax v i;
            (pts, ident) = InsertNextPoint x pts
        in (pts, InsertCellPoint ident lines))"

text \<open>Lines 420-477: the polylines, by column or by row. The points and lines handed
  to \<^verbatim>\<open>PlotData\<close> at lines 424-425 are the objects the loops fill.\<close>

definition GenerateLines ::
    "IndependentVariablesMode \<Rightarrow> vtkFieldData \<Rightarrow> int \<Rightarrow> int \<Rightarrow> int list \<Rightarrow>
     real list \<Rightarrow> real list \<Rightarrow> int \<Rightarrow> int \<Rightarrow> vtkPolyData" where
  "GenerateLines mode field numColumns numRows xs mins maxs ymin ymax =
     (let g =
        (if mode = VTK_IV_COLUMN
         then for_loop 0 numRows
                (\<lambda>j (pts, lines).
                   for_loop 0 numColumns
                     (\<lambda>i. PlotVertex xs mins maxs ymin ymax (Component field j i) i)
                     (pts, InsertNextCell numColumns lines))
                ([], vtkCellArray_New)
         else for_loop 0 numColumns
                (\<lambda>j (pts, lines).
                   for_loop 0 numRows
                     (\<lambda>i. PlotVertex xs mins maxs ymin ymax (Component field i j) i)
                     (pts, InsertNextCell numColumns lines))
                ([], vtkCellArray_New))
      in \<lparr>Points = fst g, Lines = snd g\<rparr>)"

subsection \<open>PlaceAxes\<close>

text \<open>
  What a call reports: the actor afterwards, the messages of \<^verbatim>\<open>vtkErrorMacro\<close>, and
  the returned \<^verbatim>\<open>int\<close>.
\<close>

record Outcome =
  After :: vtkParallelCoordinatesActor
  Reported :: "string list"
  Returned :: int

text \<open>
  \<^verbatim>\<open>PlaceAxes\<close> (lines 285-483). \<open>input\<close> is the object \<^verbatim>\<open>this->GetInput()\<close> points to: the
  only caller, \<^verbatim>\<open>RenderOpaqueGeometry\<close>, has returned before when there is none.
  \<open>p1\<close> and \<open>p2\<close> are the computed viewport values of the two position coordinates.
\<close>

definition PlaceAxes ::
    "vtkParallelCoordinatesActor \<Rightarrow> vtkDataObject \<Rightarrow> int \<times> int \<Rightarrow> int \<times> int \<Rightarrow> Outcome" where
  "PlaceAxes this input p1 p2 =
     (let this = Initialize this
      in case FieldData input of
           None \<Rightarrow> \<lparr>After = this, Reported = [], Returned = 0\<rparr>
         | Some field \<Rightarrow>
             let numColumns = NumberOfComponents field;
                 numRows = CountRows field;
                 n = CountVariables (IndependentVariables this) field
             in if n \<le> 0 \<or> n \<ge> VTK_LARGE_ID
                then \<lparr>After = this\<lparr>N := 0\<rparr>, Reported = [''No field data to plot''],
                      Returned = 0\<rparr>
                else
                  let (mins, maxs) =
                        ScanRanges (IndependentVariables this) field numColumns numRows
                          (InitRanges n);
                      axes = CreateAxes this n mins maxs;
                      (xs, axes) = PositionAxes n p1 p2 axes;
                      plot = GenerateLines (IndependentVariables this) field numColumns
                               numRows xs mins maxs (snd p1) (snd p2)
                  in \<lparr>After = this\<lparr>N := n, Mins := Some mins, Maxs := Some maxs,
                                   Axes := Some axes, Xs := Some xs,
                                   YMin := snd p1, YMax := snd p2, PlotData := plot\<rparr>,
                      Reported = [], Returned = 1\<rparr>)"

subsection \<open>Rendering\<close>

text \<open>
  The children the actor renders, and what a render call leaves behind: the messages of
  \<^verbatim>\<open>vtkErrorMacro\<close> and the calls to the children, in order. What a child returns
  from its own render call belongs to the rendering framework: it is the parameter
  \<open>render\<close> below.
\<close>

datatype Renderable = TitleActor | PlotActor | Axis int

datatype Event = ErrorMacro string | Render Renderable

text \<open>Lines 160-173 and 268-281: the title when there is one, the plot, then every
  axis.\<close>

definition RenderChildren ::
    "vtkParallelCoordinatesActor \<Rightarrow> (Renderable \<Rightarrow> int) \<Rightarrow> Event list \<times> int" where
  "RenderChildren this render =
     (let g = ([], 0);
          g = (if Title this \<noteq> None
               then (fst g @ [Render TitleActor], snd g + render TitleActor)
               else g);
          g = (fst g @ [Render PlotActor], snd g + render PlotActor)
      in for_loop 0 (N this)
           (\<lambda>i (events, renderedSomething).
              (events @ [Render (Axis i)], renderedSomething + render (Axis i)))
           g)"

text \<open>\<^verbatim>\<open>RenderOverlay\<close> (lines 149-174).\<close>

definition RenderOverlay ::
    "vtkParallelCoordinatesActor \<Rightarrow> (Renderable \<Rightarrow> int) \<Rightarrow> Event list \<times> int" where
  "RenderOverlay this render =
     (if Input this = None \<or> N this \<le> 0
      then ([ErrorMacro ''Nothing to plot!''], 0)
      else RenderChildren this render)"

text \<open>
  \<^verbatim>\<open>RenderOpaqueGeometry\<close> (lines 177-282). VTK's modification times are not part of the
  sources at hand: \<open>stale\<close> stands for the outcome of the comparison of lines 221-224
  (lines 196-215 only feed it). \<open>stringSize1\<close> is the height \<^verbatim>\<open>stringSize[1]\<close> that
  \<^verbatim>\<open>vtkAxisActor2D::SetFontSize\<close> reports. \<^verbatim>\<open>Xs\<close> is never \<^verbatim>\<open>NULL\<close> where line 261 reads
  it, since \<^verbatim>\<open>PlaceAxes\<close> has just succeeded.
\<close>

definition RenderOpaqueGeometry ::
    "vtkParallelCoordinatesActor \<Rightarrow> bool \<Rightarrow> int \<times> int \<Rightarrow> int \<times> int \<Rightarrow> int \<Rightarrow>
     (Renderable \<Rightarrow> int) \<Rightarrow> vtkParallelCoordinatesActor \<times> Event list \<times> int" where
  "RenderOpaqueGeometry this stale p1 p2 stringSize1 render =
     (case Input this of
        None \<Rightarrow> (this, [ErrorMacro ''Nothing to plot!''], 0)
      | Some input \<Rightarrow>
          if stale
          then let out = PlaceAxes this input p1 p2
               in if Returned out = 0
                  then (After out, map ErrorMacro (Reported out), 0)
                  else
                    let this = After out;
                        this = (case Xs this of
                                  None \<Rightarrow> this
                                | Some xs \<Rightarrow>
                                    this\<lparr>TitlePosition :=
                                      (real_of_int (xs ! 0 + xs ! nat (N this - 1)) / 2,
                                       real_of_int (YMax this) + real_of_int stringSize1 / 2)\<rparr>)
                    in (this, RenderChildren this render)
          else (this, RenderChildren this render))"

subsection \<open>The consistency of the axis count with the per-axis arrays\<close>

text \<open>Either all four arrays are \<^verbatim>\<open>NULL\<close> and \<^verbatim>\<open>N\<close> is 0, or all four are allocated with
  \<^verbatim>\<open>N\<close> slots each and \<^verbatim>\<open>N\<close> is positive.\<close>

definition AllNull :: "vtkParallelCoordinatesActor \<Rightarrow> bool" where
  "AllNull this \<longleftrightarrow>
     Axes this = None \<and> Mins this = None \<and> Maxs this = None \<and> Xs this = None \<and> N this = 0"

definition AllAllocated :: "vtkParallelCoordinatesActor \<Rightarrow> bool" where
  "AllAllocated this \<longleftrightarrow>
     0 < N this \<and>
     map_option length (Axes this) = Some (nat (N this)) \<and>
     map_option length (Mins this) = Some (nat (N this)) \<and>
     map_option length (Maxs this) = Some (nat (N this)) \<and>
     map_option length (Xs this) = Some (nat (N this))"

definition Consistent :: "vtkParallelCoordinatesActor \<Rightarrow> bool" where
  "Consistent this \<longleftrightarrow> AllNull this \<or> AllAllocated this"

subsection \<open>Invariants of the range scan\<close>

text \<open>After \<open>k\<close> values of range index \<open>j\<close>: the other slots are as in \<open>mm0\<close>, and slot
  \<open>j\<close> encloses the values seen.\<close>

definition row_inv ::
    "int \<Rightarrow> (int \<Rightarrow> real) \<Rightarrow> real list \<times> real list \<Rightarrow> int \<Rightarrow> real list \<times> real list \<Rightarrow> bool" where
  "row_inv j val mm0 k mm \<longleftrightarrow>
     length (fst mm) = length (fst mm0) \<and> length (snd mm) = length (snd mm0) \<and>
     (\<forall>a. a \<noteq> nat j \<longrightarrow> fst mm ! a = fst mm0 ! a \<and> snd mm ! a = snd mm0 ! a) \<and>
     (\<forall>i. 0 \<le> i \<and> i < k \<longrightarrow> fst mm ! nat j \<le> val i \<and> val i \<le> snd mm ! nat j)"

text \<open>After \<open>k\<close> range indices: each of them encloses its \<open>ni\<close> values.\<close>

definition table_inv ::
    "(int \<Rightarrow> int \<Rightarrow> real) \<Rightarrow> int \<Rightarrow> real list \<times> real list \<Rightarrow> int \<Rightarrow> real list \<times> real list \<Rightarrow> bool" where
  "table_inv val ni mm0 k mm \<longleftrightarrow>
     length (fst mm) = length (fst mm0) \<and> length (snd mm) = length (snd mm0) \<and>
     (\<forall>j i. 0 \<le> j \<and> j < k \<and> 0 \<le> i \<and> i < ni \<longrightarrow>
        fst mm ! nat j \<le> val j i \<and> val j i \<le> snd mm ! nat j)"

subsection \<open>Two sample inputs\<close>

text \<open>Three one-component arrays \<open>A = [0, 10]\<close>, \<open>B = [5, 5, 5]\<close>, \<open>C = [-1, 1]\<close>: a
  table of three columns whose usable rows are the first two; the middle column is
  constant. The accessor is given on those two rows.\<close>

definition sample_field :: vtkFieldData where
  "sample_field =
     \<lparr>NumberOfComponents = 3, ArrayNumberOfTuples = [2, 3, 2],
      Component = (\<lambda>i j. [[0, 5, - 1], [10, 5, 1]] ! nat i ! nat j)\<rparr>"

definition sample_input :: vtkDataObject where
  "sample_input = \<lparr>FieldData = Some sample_field\<rparr>"

definition column_actor :: vtkParallelCoordinatesActor where
  "column_actor = (vtkParallelCoordinatesActor_New 0 0 (0, 0))\<lparr>Input := Some sample_input\<rparr>"

definition row_actor :: vtkParallelCoordinatesActor where
  "row_actor = column_actor\<lparr>IndependentVariables := VTK_IV_ROW\<rparr>"

section \<open>Properties of the loops and phases\<close>

lemma for_loop_done: "n \<le> i \<Longrightarrow> for_loop i n body s = s"
  by (subst for_loop.simps) simp

lemma for_loop_step: "i < n \<Longrightarrow> for_loop i n body s = for_loop (i + 1) n body (body i s)"
  by (subst for_loop.simps) simp

lemma for_loop_rule:
  assumes "i \<le> n" and "P i s"
    and "\<And>k t. i \<le> k \<Longrightarrow> k < n \<Longrightarrow> P k t \<Longrightarrow> P (k + 1) (body k t)"
  shows "P n (for_loop i n body s)"
  using assms
proof (induction i n body s rule: for_loop.induct)
  case (1 i n body s)
  show ?case
  proof (cases "i < n")
    case True
    have "P n (for_loop (i + 1) n body (body i s))"
    proof (rule "1.IH" [OF True])
      show "i + 1 \<le> n" using True by simp
      show "P (i + 1) (body i s)" using "1.prems" True by simp
      show "\<And>k t. i + 1 \<le> k \<Longrightarrow> k < n \<Longrightarrow> P k t \<Longrightarrow> P (k + 1) (body k t)"
        using "1.prems"(3) by simp
    qed
    then show ?thesis using True by (simp add: for_loop_step)
  next
    case False
    then have "i = n" using "1.prems"(1) by simp
    then show ?thesis using "1.prems"(2) by (simp add: for_loop_done)
  qed
qed

lemma upt_nat_step: "0 \<le> k \<Longrightarrow> [0..<nat (k + 1)] = [0..<nat k] @ [nat k]"
  by (simp add: nat_add_distrib)

subsection \<open>The row count\<close>

lemma CountRows_eq:
  "CountRows field = Min (insert VTK_LARGE_ID (set (ArrayNumberOfTuples field)))"
proof -
  let ?ts = "ArrayNumberOfTuples field"
  let ?P = "\<lambda>k r. r = Min (insert VTK_LARGE_ID (set (take (nat k) ?ts)))"
  have "?P (int (length ?ts)) (CountRows field)"
    unfolding CountRows_def
  proof (rule for_loop_rule [where P = "?P"])
    show "0 \<le> int (length ?ts)" by simp
    show "?P 0 VTK_LARGE_ID" by simp
  next
    fix k t
    assume k: "0 \<le> k" "k < int (length ?ts)" and t: "?P k t"
    have tk: "take (nat (k + 1)) ?ts = take (nat k) ?ts @ [?ts ! nat k]"
      using k by (simp add: nat_add_distrib take_Suc_conv_app_nth)
    have "insert VTK_LARGE_ID (set (take (nat (k + 1)) ?ts))
          = insert (?ts ! nat k) (insert VTK_LARGE_ID (set (take (nat k) ?ts)))"
      unfolding tk by auto
    then have "Min (insert VTK_LARGE_ID (set (take (nat (k + 1)) ?ts))) = min (?ts ! nat k) t"
      unfolding t
      by (simp only: Min_insert finite_insert finite_set insert_not_empty not_False_eq_True)
    moreover have "(let numTuples = ?ts ! nat k in if numTuples < t then numTuples else t)
          = min (?ts ! nat k) t"
      by (simp add: Let_def min_def)
    ultimately show "?P (k + 1) (let numTuples = ?ts ! nat k in if numTuples < t then numTuples else t)"
      by (simp only:)
  qed
  then show ?thesis by simp
qed

subsection \<open>The initial ranges\<close>

lemma InitRanges_eq:
  assumes "0 \<le> n"
  shows "InitRanges n = (replicate (nat n) VTK_LARGE_FLOAT, replicate (nat n) (- VTK_LARGE_FLOAT))"
proof -
  let ?P = "\<lambda>k mm. length (fst mm) = nat n \<and> length (snd mm) = nat n \<and>
      (\<forall>a < nat k. fst mm ! a = VTK_LARGE_FLOAT \<and> snd mm ! a = - VTK_LARGE_FLOAT)"
  have "?P n (InitRanges n)"
    unfolding InitRanges_def
  proof (rule for_loop_rule [where P = "?P"])
    show "0 \<le> n" by fact
    show "?P 0 (replicate (nat n) 0, replicate (nat n) 0)" by simp
  next
    fix k t
    assume k: "0 \<le> k" "k < n" and t: "?P k t"
    obtain mins maxs where mm: "t = (mins, maxs)" by (cases t)
    have "nat (k + 1) = Suc (nat k)" using k by simp
    then show "?P (k + 1) (case t of (mins, maxs) \<Rightarrow>
        (mins[nat k := VTK_LARGE_FLOAT], maxs[nat k := - VTK_LARGE_FLOAT]))"
      using t k unfolding mm by (auto simp: nth_list_update less_Suc_eq)
  qed
  then show ?thesis
    by (cases "InitRanges n") (auto intro!: nth_equalityI)
qed

subsection \<open>The range scan\<close>

lemma UpdateRange_length:
  "length (fst (UpdateRange v j mm)) = length (fst mm) \<and>
   length (snd (UpdateRange v j mm)) = length (snd mm)"
  by (cases mm) (simp add: UpdateRange_def Let_def)

lemma UpdateRange_other:
  "a \<noteq> nat j \<Longrightarrow>
   fst (UpdateRange v j mm) ! a = fst mm ! a \<and> snd (UpdateRange v j mm) ! a = snd mm ! a"
  by (cases mm) (simp add: UpdateRange_def Let_def)

lemma UpdateRange_at:
  "nat j < length (fst mm) \<Longrightarrow> nat j < length (snd mm) \<Longrightarrow>
   fst (UpdateRange v j mm) ! nat j = min v (fst mm ! nat j) \<and>
   snd (UpdateRange v j mm) ! nat j = max v (snd mm ! nat j)"
  by (cases mm) (simp add: UpdateRange_def Let_def min_def max_def)

lemma scan_inner:
  assumes j: "nat j < length (fst mm0)" "nat j < length (snd mm0)" and ni: "0 \<le> ni"
  shows "row_inv j val mm0 ni (for_loop 0 ni (\<lambda>i. UpdateRange (val i) j) mm0)"
proof (rule for_loop_rule [where P = "row_inv j val mm0"])
  show "0 \<le> ni" by fact
  show "row_inv j val mm0 0 mm0" by (simp add: row_inv_def)
next
  fix k t
  assume k: "0 \<le> k" "k < ni" and t: "row_inv j val mm0 k t"
  have len: "nat j < length (fst t)" "nat j < length (snd t)"
    using t j by (simp_all add: row_inv_def)
  have at: "fst (UpdateRange (val k) j t) ! nat j = min (val k) (fst t ! nat j)"
           "snd (UpdateRange (val k) j t) ! nat j = max (val k) (snd t ! nat j)"
    using UpdateRange_at [OF len] by simp_all
  have old: "\<And>i. 0 \<le> i \<Longrightarrow> i < k \<Longrightarrow> fst t ! nat j \<le> val i \<and> val i \<le> snd t ! nat j"
    using t by (simp add: row_inv_def)
  have "\<And>i. 0 \<le> i \<Longrightarrow> i < k + 1 \<Longrightarrow>
          min (val k) (fst t ! nat j) \<le> val i \<and> val i \<le> max (val k) (snd t ! nat j)"
  proof -
    fix i :: int assume i: "0 \<le> i" "i < k + 1"
    show "min (val k) (fst t ! nat j) \<le> val i \<and> val i \<le> max (val k) (snd t ! nat j)"
    proof (cases "i = k")
      case True then show ?thesis by simp
    next
      case False
      then have "i < k" using i by simp
      then show ?thesis using old [OF i(1)] by (simp add: min_def max_def)
    qed
  qed
  then show "row_inv j val mm0 (k + 1) (UpdateRange (val k) j t)"
    using t UpdateRange_length [of "val k" j t] UpdateRange_other [of _ j "val k" t]
    by (simp add: row_inv_def at)
qed

lemma scan_inner_any:
  assumes j: "nat j < length (fst mm0)" "nat j < length (snd mm0)"
  shows "row_inv j val mm0 ni (for_loop 0 ni (\<lambda>i. UpdateRange (val i) j) mm0)"
proof (cases "0 \<le> ni")
  case True
  then show ?thesis by (rule scan_inner [OF j])
next
  case False
  then show ?thesis by (simp add: for_loop_done row_inv_def)
qed

lemma scan_outer:
  assumes no: "0 \<le> no" "nat no \<le> length (fst mm0)" "nat no \<le> length (snd mm0)"
  shows "table_inv val ni mm0 no
           (for_loop 0 no (\<lambda>j. for_loop 0 ni (\<lambda>i. UpdateRange (val j i) j)) mm0)"
proof (rule for_loop_rule [where P = "table_inv val ni mm0"])
  show "0 \<le> no" by fact
  show "table_inv val ni mm0 0 mm0" by (simp add: table_inv_def)
next
  fix k t
  assume k: "0 \<le> k" "k < no" and t: "table_inv val ni mm0 k t"
  let ?t' = "for_loop 0 ni (\<lambda>i. UpdateRange (val k i) k) t"
  have len: "nat k < length (fst t)" "nat k < length (snd t)"
    using t k no by (simp_all add: table_inv_def)
  have inner: "row_inv k (val k) t ni ?t'"
    by (rule scan_inner_any [OF len])
  have "\<And>j i. 0 \<le> j \<Longrightarrow> j < k + 1 \<Longrightarrow> 0 \<le> i \<Longrightarrow> i < ni \<Longrightarrow>
          fst ?t' ! nat j \<le> val j i \<and> val j i \<le> snd ?t' ! nat j"
  proof -
    fix j i :: int assume ji: "0 \<le> j" "j < k + 1" "0 \<le> i" "i < ni"
    show "fst ?t' ! nat j \<le> val j i \<and> val j i \<le> snd ?t' ! nat j"
    proof (cases "j = k")
      case True
      then show ?thesis using inner ji by (simp add: row_inv_def)
    next
      case False
      then have lt: "j < k" using ji by simp
      then have "nat j \<noteq> nat k" using ji k by simp
      then have "fst ?t' ! nat j = fst t ! nat j" "snd ?t' ! nat j = snd t ! nat j"
        using inner by (simp_all add: row_inv_def)
      then show ?thesis using t ji lt by (simp add: table_inv_def)
    qed
  qed
  then show "table_inv val ni mm0 (k + 1) ?t'"
    using t inner by (simp add: table_inv_def row_inv_def)
qed

subsection \<open>The axes\<close>

lemma CreateAxes_length: "0 \<le> n \<Longrightarrow> length (CreateAxes this n mins maxs) = nat n"
  unfolding CreateAxes_def
  by (rule for_loop_rule [where P = "\<lambda>k axes. length axes = nat n"]) simp_all


lemma PositionAxes_eq:
  fixes axes :: "vtkAxisActor2D list"
  assumes "0 \<le> n"
  shows "fst (PositionAxes n p1 p2 axes) = map (\<lambda>i. AxisX (fst p1) (fst p2) n (int i)) [0..<nat n]"
    and "length (snd (PositionAxes n p1 p2 axes)) = length axes"
proof -
  let ?P = "\<lambda>k (g :: int list \<times> vtkAxisActor2D list).
      length (fst g) = nat n \<and> length (snd g) = length axes \<and>
      (\<forall>a < nat k. fst g ! a = AxisX (fst p1) (fst p2) n (int a))"
  have "?P n (PositionAxes n p1 p2 axes)"
    unfolding PositionAxes_def
  proof (rule for_loop_rule [where P = "?P"])
    show "0 \<le> n" by fact
    show "?P 0 (replicate (nat n) 0, axes)" by simp
  next
    fix k t
    assume k: "0 \<le> k" "k < n" and t: "?P k t"
    obtain xs ax where g: "t = (xs, ax)" by (cases t)
    have "nat (k + 1) = Suc (nat k)" using k by simp
    then show "?P (k + 1) (case t of (xs, axes) \<Rightarrow>
          let xs = xs[nat k := AxisX (fst p1) (fst p2) n k];
              x = real_of_int (xs ! nat k)
          in (xs, axes[nat k := (axes ! nat k)
                \<lparr>Point1 := (x, real_of_int (snd p1)), Point2 := (x, real_of_int (snd p2))\<rparr>]))"
      using t k unfolding g by (auto simp: Let_def nth_list_update less_Suc_eq)
  qed
  then show "fst (PositionAxes n p1 p2 axes) = map (\<lambda>i. AxisX (fst p1) (fst p2) n (int i)) [0..<nat n]"
    and "length (snd (PositionAxes n p1 p2 axes)) = length axes"
    by (auto intro!: nth_equalityI)
qed

subsection \<open>The polylines\<close>

lemma PlotVertex_eq:
  "PlotVertex xs mins maxs ymin ymax v i (pts, ca) =
     (pts @ [Vertex xs mins maxs ymin ymax v i], ca\<lparr>Ia := Ia ca @ [int (length pts)]\<rparr>)"
  by (simp add: PlotVertex_def InsertNextPoint_def InsertCellPoint_def)

lemma plot_inner:
  "for_loop 0 ni (\<lambda>i. PlotVertex xs mins maxs ymin ymax (val i) i) (pts, ca) =
     (pts @ map (\<lambda>i. Vertex xs mins maxs ymin ymax (val (int i)) (int i)) [0..<nat ni],
      ca\<lparr>Ia := Ia ca @ map (\<lambda>i. int (length pts) + int i) [0..<nat ni]\<rparr>)"
proof (cases "0 \<le> ni")
  case False
  then show ?thesis by (simp add: for_loop_done)
next
  case True
  let ?P = "\<lambda>k g. g =
     (pts @ map (\<lambda>i. Vertex xs mins maxs ymin ymax (val (int i)) (int i)) [0..<nat k],
      ca\<lparr>Ia := Ia ca @ map (\<lambda>i. int (length pts) + int i) [0..<nat k]\<rparr>)"
  show ?thesis
  proof (rule for_loop_rule [where P = "?P"])
    show "0 \<le> ni" by fact
    show "?P 0 (pts, ca)" by simp
  next
    fix k t
    assume k: "0 \<le> k" "k < ni" and t: "?P k t"
    show "?P (k + 1) (PlotVertex xs mins maxs ymin ymax (val k) k t)"
      unfolding t PlotVertex_eq using k by (simp add: upt_nat_step)
  qed
qed

lemma length_blocks:
  "length (concat (map (\<lambda>j. map (f j) [0..<m]) [0..<k])) = k * m"
  by (induction k) simp_all

lemma plot_outer:
  "for_loop 0 no
     (\<lambda>j (pts, lines).
        for_loop 0 ni (\<lambda>i. PlotVertex xs mins maxs ymin ymax (val j i) i)
          (pts, InsertNextCell c lines))
     ([], vtkCellArray_New) =
   (concat (map (\<lambda>j. map (\<lambda>i. Vertex xs mins maxs ymin ymax (val (int j) (int i)) (int i))
                         [0..<nat ni]) [0..<nat no]),
    \<lparr>Ia = concat (map (\<lambda>j. c # map (\<lambda>i. int (j * nat ni) + int i) [0..<nat ni]) [0..<nat no]),
     NumberOfCells = int (nat no)\<rparr>)"
proof (cases "0 \<le> no")
  case False
  then show ?thesis by (simp add: for_loop_done vtkCellArray_New_def)
next
  case True
  let ?P = "\<lambda>k g. g =
   (concat (map (\<lambda>j. map (\<lambda>i. Vertex xs mins maxs ymin ymax (val (int j) (int i)) (int i))
                         [0..<nat ni]) [0..<nat k]),
    \<lparr>Ia = concat (map (\<lambda>j. c # map (\<lambda>i. int (j * nat ni) + int i) [0..<nat ni]) [0..<nat k]),
     NumberOfCells = int (nat k)\<rparr>)"
  show ?thesis
  proof (rule for_loop_rule [where P = "?P"])
    show "0 \<le> no" by fact
    show "?P 0 ([], vtkCellArray_New)" by (simp add: vtkCellArray_New_def)
  next
    fix k t
    assume k: "0 \<le> k" "k < no" and t: "?P k t"
    show "?P (k + 1) (case t of (pts, lines) \<Rightarrow>
        for_loop 0 ni (\<lambda>i. PlotVertex xs mins maxs ymin ymax (val k i) i)
          (pts, InsertNextCell c lines))"
      unfolding t using k
      by (simp add: plot_inner upt_nat_step InsertNextCell_def length_blocks nat_add_distrib)
  qed
qed


subsection \<open>The shape of a call of PlaceAxes\<close>

lemma Initialize_fields:
  "IndependentVariables (Initialize this) = IndependentVariables this"
  "N (Initialize this) = 0"
  "PlotData (Initialize this) = PlotData this"
  "NumberOfLabels (Initialize this) = NumberOfLabels this"
  "LabelFormat (Initialize this) = LabelFormat this"
  "Input (Initialize this) = Input this"
  "Title (Initialize this) = Title this"
  by (simp_all add: Initialize_def Let_def)

lemma Initialize_Consistent: "Consistent this \<Longrightarrow> AllNull (Initialize this)"
  by (auto simp: Consistent_def AllNull_def AllAllocated_def Initialize_def Let_def)

lemma Initialize_idem: "Initialize (Initialize this) = Initialize this"
  by (simp add: Initialize_def Let_def)

lemma PlaceAxes_no_field:
  "FieldData input = None \<Longrightarrow>
   PlaceAxes this input p1 p2 = \<lparr>After = Initialize this, Reported = [], Returned = 0\<rparr>"
  by (simp add: PlaceAxes_def Let_def)

lemma PlaceAxes_no_data:
  assumes "FieldData input = Some field"
    and "CountVariables (IndependentVariables this) field \<le> 0 \<or>
         VTK_LARGE_ID \<le> CountVariables (IndependentVariables this) field"
  shows "PlaceAxes this input p1 p2 =
           \<lparr>After = Initialize this, Reported = [''No field data to plot''], Returned = 0\<rparr>"
proof -
  have "(Initialize this)\<lparr>N := 0\<rparr> = Initialize this"
    by (simp add: Initialize_def Let_def)
  then show ?thesis
    using assms by (simp add: PlaceAxes_def Let_def Initialize_fields)
qed

lemma PlaceAxes_layout:
  assumes "FieldData input = Some field"
    and "0 < CountVariables (IndependentVariables this) field"
    and "CountVariables (IndependentVariables this) field < VTK_LARGE_ID"
  shows "PlaceAxes this input p1 p2 =
     (let mode = IndependentVariables this;
          n = CountVariables mode field;
          mm = ScanRanges mode field (NumberOfComponents field) (CountRows field) (InitRanges n);
          pa = PositionAxes n p1 p2 (CreateAxes (Initialize this) n (fst mm) (snd mm))
      in \<lparr>After = (Initialize this)
              \<lparr>N := n, Mins := Some (fst mm), Maxs := Some (snd mm), Axes := Some (snd pa),
               Xs := Some (fst pa), YMin := snd p1, YMax := snd p2,
               PlotData := GenerateLines mode field (NumberOfComponents field) (CountRows field)
                             (fst pa) (fst mm) (snd mm) (snd p1) (snd p2)\<rparr>,
          Reported = [], Returned = 1\<rparr>)"
  using assms by (simp add: PlaceAxes_def Let_def Initialize_fields split_beta)

lemma PlaceAxes_Returned:
  "Returned (PlaceAxes this input p1 p2) = 1 \<longleftrightarrow>
     (\<exists>field. FieldData input = Some field \<and>
        0 < CountVariables (IndependentVariables this) field \<and>
        CountVariables (IndependentVariables this) field < VTK_LARGE_ID)"
proof (cases "FieldData input")
  case None
  then show ?thesis by (simp add: PlaceAxes_no_field)
next
  case (Some field)
  show ?thesis
  proof (cases "0 < CountVariables (IndependentVariables this) field \<and>
                CountVariables (IndependentVariables this) field < VTK_LARGE_ID")
    case True
    then show ?thesis using Some by (simp add: PlaceAxes_layout Let_def)
  next
    case False
    then have "CountVariables (IndependentVariables this) field \<le> 0 \<or>
         VTK_LARGE_ID \<le> CountVariables (IndependentVariables this) field" by auto
    from PlaceAxes_no_data [OF Some this] False Some show ?thesis by auto
  qed
qed

lemma ScanRanges_table:
  assumes "0 \<le> n" and "n = CountVariables mode field"
  shows "table_inv
           (\<lambda>j i. if mode = VTK_IV_COLUMN then Component field i j else Component field j i)
           (if mode = VTK_IV_COLUMN then CountRows field else NumberOfComponents field)
           (InitRanges n) n
           (ScanRanges mode field (NumberOfComponents field) (CountRows field) (InitRanges n))"
proof -
  let ?mm0 = "InitRanges n"
  have len0: "nat n \<le> length (fst ?mm0)" "nat n \<le> length (snd ?mm0)"
    using assms(1) by (simp_all add: InitRanges_eq)
  show ?thesis
  proof (cases mode)
    case VTK_IV_COLUMN
    then have n: "NumberOfComponents field = n" using assms(2) by (simp add: CountVariables_def)
    show ?thesis
      unfolding ScanRanges_def n using VTK_IV_COLUMN scan_outer [OF assms(1) len0]
      by simp
  next
    case VTK_IV_ROW
    then have n: "CountRows field = n" using assms(2) by (simp add: CountVariables_def)
    show ?thesis
      unfolding ScanRanges_def n using VTK_IV_ROW scan_outer [OF assms(1) len0]
      by simp
  qed
qed

lemma ScanRanges_length:
  assumes "0 \<le> n" and "n = CountVariables mode field"
  shows "length (fst (ScanRanges mode field (NumberOfComponents field) (CountRows field) (InitRanges n))) = nat n \<and>
         length (snd (ScanRanges mode field (NumberOfComponents field) (CountRows field) (InitRanges n))) = nat n"
  using ScanRanges_table [OF assms] assms(1) by (simp add: table_inv_def InitRanges_eq)

subsection \<open>Single precision\<close>























text \<open>Evaluation on numerals.\<close>

lemma quantum_up_numeral:
  "quantum_up (numeral k) x q =
     (if 2 \<le> x then quantum_up (pred_numeral k) (x / 2) (2 * q) else q)"
  by (simp add: numeral_eq_Suc)

lemma quantum_down_numeral:
  "quantum_down (numeral k) x q =
     (if x < 1 then quantum_down (pred_numeral k) (2 * x) (q / 2) else q)"
  by (simp add: numeral_eq_Suc)

lemmas binary32_eval =
  binary32_def quantum_def quantum_up_numeral quantum_down_numeral round_half_even_def Let_def

subsection \<open>The positions of the axes\<close>











lemmas AxisX_eval = AxisX_def AxisXFloat_def float_to_int_def binary32_eval

lemma AxisX_samples:
  "AxisX 100 200 3 0 = 100" "AxisX 100 200 3 1 = 133" "AxisX 100 200 3 2 = 166"
  "AxisX 100 200 2 0 = 100" "AxisX 100 200 2 1 = 150"
  "AxisX 0 2 3 0 = 0" "AxisX 0 2 3 1 = 0" "AxisX 0 2 3 2 = 1"
  by (simp_all add: AxisX_eval)

lemma AxisX_rounded:
  "AxisX 0 22 22 12 = 12" "AxisX 0 22 22 13 = 12" "AxisX 0 108 12 7 = 62"
  by (simp_all add: AxisX_eval)


subsection \<open>The sample layouts\<close>

lemmas sample_defs =
  PlaceAxes_def Initialize_def column_actor_def row_actor_def sample_input_def
  vtkParallelCoordinatesActor_New_def CountRows_def CountVariables_def sample_field_def
  for_loop.simps VTK_LARGE_ID_def Let_def InitRanges_def ScanRanges_def UpdateRange_def
  CreateAxes_def PositionAxes_def AxisX_samples GenerateLines_def PlotVertex_def
  Vertex_def VertexY_def InsertNextPoint_def InsertCellPoint_def InsertNextCell_def
  vtkCellArray_New_def VTK_LARGE_FLOAT_def vtkAxisActor2D_New_def eval_nat_numeral

lemma sample_column_layout:
  "PlaceAxes column_actor sample_input (100, 100) (200, 300) =
     \<lparr>After = column_actor
        \<lparr>N := 3, Mins := Some [0, 5, - 1], Maxs := Some [10, 5, 1],
         Axes := Some
           [\<lparr>Point1 = (100, 100), Point2 = (100, 300), Range = (0, 10), AdjustLabels = False,
             AxisNumberOfLabels = 2, AxisLabelFormat = ''%-#6.3g''\<rparr>,
            \<lparr>Point1 = (133, 100), Point2 = (133, 300), Range = (5, 5), AdjustLabels = False,
             AxisNumberOfLabels = 2, AxisLabelFormat = ''%-#6.3g''\<rparr>,
            \<lparr>Point1 = (166, 100), Point2 = (166, 300), Range = (- 1, 1), AdjustLabels = False,
             AxisNumberOfLabels = 2, AxisLabelFormat = ''%-#6.3g''\<rparr>],
         Xs := Some [100, 133, 166], YMin := 100, YMax := 300,
         PlotData :=
           \<lparr>Points = [(100, 100, 0), (133, 100, 0), (166, 100, 0),
                      (100, 300, 0), (133, 100, 0), (166, 300, 0)],
            Lines = \<lparr>Ia = [3, 0, 1, 2, 3, 3, 4, 5], NumberOfCells = 2\<rparr>\<rparr>\<rparr>,
      Reported = [], Returned = 1\<rparr>"
  by (simp add: sample_defs)

lemma sample_row_layout:
  "PlaceAxes row_actor sample_input (100, 100) (200, 300) =
     \<lparr>After = row_actor
        \<lparr>N := 2, Mins := Some [- 1, 1], Maxs := Some [5, 10],
         Axes := Some
           [\<lparr>Point1 = (100, 100), Point2 = (100, 300), Range = (- 1, 5), AdjustLabels = False,
             AxisNumberOfLabels = 2, AxisLabelFormat = ''%-#6.3g''\<rparr>,
            \<lparr>Point1 = (150, 100), Point2 = (150, 300), Range = (1, 10), AdjustLabels = False,
             AxisNumberOfLabels = 2, AxisLabelFormat = ''%-#6.3g''\<rparr>],
         Xs := Some [100, 150], YMin := 100, YMax := 300,
         PlotData :=
           \<lparr>Points = [(100, 400 / 3, 0), (150, 300, 0), (100, 300, 0), (150, 1700 / 9, 0),
                      (100, 100, 0), (150, 100, 0)],
            Lines = \<lparr>Ia = [3, 0, 1, 3, 2, 3, 3, 4, 5], NumberOfCells = 3\<rparr>\<rparr>\<rparr>,
      Reported = [], Returned = 1\<rparr>"
  by (simp add: sample_defs)


subsection \<open>The vertices and cells of the plot\<close>

lemma VertexY_degenerate:
  "mx - mn = 0 \<Longrightarrow> VertexY v mn mx ymin ymax = 0.5 * real_of_int (ymax - ymin)"
  by (simp add: VertexY_def)

lemma VertexY_degenerate_midpoint:
  assumes "mx - mn = 0"
  shows "VertexY v mn mx ymin ymax = (real_of_int ymin + real_of_int ymax) / 2 \<longleftrightarrow> ymin = 0"
  using assms by (simp add: VertexY_def field_simps)


lemma GenerateLines_eq:
  "GenerateLines mode field numColumns numRows xs mins maxs ymin ymax =
     (let ni = nat (if mode = VTK_IV_COLUMN then numColumns else numRows);
          no = nat (if mode = VTK_IV_COLUMN then numRows else numColumns)
      in \<lparr>Points = concat (map (\<lambda>j. map (\<lambda>i. Vertex xs mins maxs ymin ymax
                  (if mode = VTK_IV_COLUMN then Component field (int j) (int i)
                   else Component field (int i) (int j)) (int i)) [0..<ni]) [0..<no]),
          Lines = \<lparr>Ia = concat (map (\<lambda>j. numColumns # map (\<lambda>i. int (j * ni) + int i) [0..<ni])
                                 [0..<no]),
                   NumberOfCells = int no\<rparr>\<rparr>)"
  by (cases mode) (simp_all add: GenerateLines_def plot_outer Let_def)

lemma column_mode_lines:
  assumes "Returned (PlaceAxes this input p1 p2) = 1" and "FieldData input = Some field"
    and "IndependentVariables this = VTK_IV_COLUMN"
  shows "Lines (PlotData (After (PlaceAxes this input p1 p2))) =
     \<lparr>Ia = concat (map (\<lambda>j. N (After (PlaceAxes this input p1 p2)) #
                           map (\<lambda>i. int (j * nat (N (After (PlaceAxes this input p1 p2)))) + int i)
                             [0..<nat (N (After (PlaceAxes this input p1 p2)))])
                     [0..<nat (CountRows field)]),
      NumberOfCells = int (nat (CountRows field))\<rparr>"
proof -
  have f: "0 < CountVariables (IndependentVariables this) field"
    "CountVariables (IndependentVariables this) field < VTK_LARGE_ID"
    using assms(1,2) by (auto simp: PlaceAxes_Returned)
  show ?thesis
    using assms(3)
    by (simp add: PlaceAxes_layout [OF assms(2) f] Let_def GenerateLines_eq CountVariables_def)
qed

lemma ReadCells_blocks:
  assumes "\<And>j. j \<in> set js \<Longrightarrow> length (f j) = nat c"
  shows "ReadCells (concat (map (\<lambda>j. c # f j) js)) = map f js"
  using assms by (induction js) simp_all

lemma column_mode_polylines:
  assumes "Returned (PlaceAxes this input p1 p2) = 1" and "FieldData input = Some field"
    and "IndependentVariables this = VTK_IV_COLUMN"
    and "n = N (After (PlaceAxes this input p1 p2))"
  shows "ReadCells (Ia (Lines (PlotData (After (PlaceAxes this input p1 p2))))) =
           map (\<lambda>j. map (\<lambda>i. int (j * nat n) + int i) [0..<nat n]) [0..<nat (CountRows field)]"
    and "NumberOfCells (Lines (PlotData (After (PlaceAxes this input p1 p2)))) =
           int (nat (CountRows field))"
proof -
  have l: "Lines (PlotData (After (PlaceAxes this input p1 p2))) =
     \<lparr>Ia = concat (map (\<lambda>j. n # map (\<lambda>i. int (j * nat n) + int i) [0..<nat n])
                     [0..<nat (CountRows field)]),
      NumberOfCells = int (nat (CountRows field))\<rparr>"
    unfolding assms(4) by (rule column_mode_lines [OF assms(1-3)])
  show "ReadCells (Ia (Lines (PlotData (After (PlaceAxes this input p1 p2))))) =
           map (\<lambda>j. map (\<lambda>i. int (j * nat n) + int i) [0..<nat n]) [0..<nat (CountRows field)]"
    unfolding l by (simp add: ReadCells_blocks)
  show "NumberOfCells (Lines (PlotData (After (PlaceAxes this input p1 p2)))) =
           int (nat (CountRows field))"
    unfolding l by simp
qed



subsection \<open>Rebuilding, and the consistency of the arrays\<close>

lemma CreateAxes_labels:
  "NumberOfLabels a = NumberOfLabels b \<Longrightarrow> LabelFormat a = LabelFormat b \<Longrightarrow>
   CreateAxes a n mins maxs = CreateAxes b n mins maxs"
  by (simp add: CreateAxes_def)

lemma Initialize_overwritten:
  "(Initialize ((Initialize this)\<lparr>N := n, Mins := mn, Maxs := mx, Axes := ax, Xs := xs,
       YMin := y0, YMax := y1, PlotData := pd\<rparr>))
     \<lparr>N := n', Mins := mn', Maxs := mx', Axes := ax', Xs := xs', YMin := y0, YMax := y1,
      PlotData := pd\<rparr>
   = (Initialize this)\<lparr>N := n', Mins := mn', Maxs := mx', Axes := ax', Xs := xs', YMin := y0,
      YMax := y1, PlotData := pd\<rparr>"
  by (simp add: Initialize_def Let_def)

lemma PlaceAxes_idem:
  "PlaceAxes (After (PlaceAxes this input p1 p2)) input p1 p2 = PlaceAxes this input p1 p2"
proof (cases "FieldData input")
  case None
  then show ?thesis by (simp add: PlaceAxes_no_field Initialize_idem)
next
  case (Some field)
  let ?n = "CountVariables (IndependentVariables this) field"
  show ?thesis
  proof (cases "0 < ?n \<and> ?n < VTK_LARGE_ID")
    case False
    then have bad: "?n \<le> 0 \<or> VTK_LARGE_ID \<le> ?n" by auto
    have bad': "CountVariables (IndependentVariables (Initialize this)) field \<le> 0 \<or>
        VTK_LARGE_ID \<le> CountVariables (IndependentVariables (Initialize this)) field"
      using bad by (simp add: Initialize_fields)
    show ?thesis
      by (simp add: PlaceAxes_no_data [OF Some bad] PlaceAxes_no_data [OF Some bad']
          Initialize_idem)
  next
    case True
    then have ok: "0 < ?n" "?n < VTK_LARGE_ID" by simp_all
    let ?this1 = "After (PlaceAxes this input p1 p2)"
    have iv: "IndependentVariables ?this1 = IndependentVariables this"
      by (simp add: PlaceAxes_layout [OF Some ok] Let_def Initialize_fields)
    have ok1: "0 < CountVariables (IndependentVariables ?this1) field"
      "CountVariables (IndependentVariables ?this1) field < VTK_LARGE_ID"
      using ok by (simp_all only: iv)
    have ca: "CreateAxes (Initialize ?this1) = CreateAxes (Initialize this)"
      by (intro ext CreateAxes_labels)
         (simp_all add: PlaceAxes_layout [OF Some ok] Let_def Initialize_fields)
    show ?thesis
      unfolding PlaceAxes_layout [OF Some ok1] iv ca
      by (simp add: PlaceAxes_layout [OF Some ok] Let_def Initialize_overwritten)
  qed
qed

lemma PlaceAxes_TitlePosition:
  "PlaceAxes (this\<lparr>TitlePosition := tp\<rparr>) input p1 p2 =
     (PlaceAxes this input p1 p2)
       \<lparr>After := (After (PlaceAxes this input p1 p2))\<lparr>TitlePosition := tp\<rparr>\<rparr>"
  by (simp add: PlaceAxes_def Let_def Initialize_def CreateAxes_def split: option.split prod.split)

lemma PlaceAxes_Input: "Input (After (PlaceAxes this input p1 p2)) = Input this"
  by (simp add: PlaceAxes_def Let_def Initialize_def split: option.split prod.split)

lemma RenderOpaqueGeometry_idem:
  "RenderOpaqueGeometry (fst (RenderOpaqueGeometry this True p1 p2 h render)) True p1 p2 h render
     = RenderOpaqueGeometry this True p1 p2 h render"
proof (cases "Input this")
  case None
  then show ?thesis by (simp add: RenderOpaqueGeometry_def)
next
  case (Some input)
  let ?out = "PlaceAxes this input p1 p2"
  show ?thesis
  proof (cases "Returned ?out = 0")
    case True
    then have r: "RenderOpaqueGeometry this True p1 p2 h render
        = (After ?out, map ErrorMacro (Reported ?out), 0)"
      using Some by (simp add: RenderOpaqueGeometry_def Let_def)
    have "Input (After ?out) = Some input" using Some by (simp add: PlaceAxes_Input)
    then show ?thesis
      unfolding r using True
      by (simp add: RenderOpaqueGeometry_def Let_def PlaceAxes_idem)
  next
    case False
    show ?thesis
    proof (cases "Xs (After ?out)")
      case None
      then have r: "RenderOpaqueGeometry this True p1 p2 h render
          = (After ?out, RenderChildren (After ?out) render)"
        using Some False by (simp add: RenderOpaqueGeometry_def Let_def)
      have "Input (After ?out) = Some input" using Some by (simp add: PlaceAxes_Input)
      then show ?thesis
        unfolding r using False None
        by (simp add: RenderOpaqueGeometry_def Let_def PlaceAxes_idem)
    next
      case (Some xs)
      define tp where "tp = (real_of_int (xs ! 0 + xs ! nat (N (After ?out) - 1)) / 2,
                  real_of_int (YMax (After ?out)) + real_of_int h / 2)"
      define this1 where "this1 = (After ?out)\<lparr>TitlePosition := tp\<rparr>"
      have r: "RenderOpaqueGeometry this True p1 p2 h render
          = (this1, RenderChildren this1 render)"
        using \<open>Input this = Some input\<close> False Some
        unfolding this1_def tp_def by (simp add: RenderOpaqueGeometry_def Let_def)
      have i: "Input this1 = Some input"
        using \<open>Input this = Some input\<close> by (simp add: this1_def PlaceAxes_Input)
      have p: "PlaceAxes this1 input p1 p2 = ?out\<lparr>After := this1\<rparr>"
        by (simp add: this1_def PlaceAxes_TitlePosition PlaceAxes_idem)
      have x: "Xs this1 = Some xs" "N this1 = N (After ?out)" "YMax this1 = YMax (After ?out)"
        using Some by (simp_all add: this1_def)
      have t: "\<And>v. v = tp \<Longrightarrow> this1\<lparr>TitlePosition := v\<rparr> = this1"
        by (simp add: this1_def)
      have "RenderOpaqueGeometry this1 True p1 p2 h render = (this1, RenderChildren this1 render)"
        using False
        by (simp add: RenderOpaqueGeometry_def [of this1] Let_def i p x tp_def t)
      then show ?thesis unfolding r by simp
    qed
  qed
qed

lemma RenderOpaqueGeometry_fresh:
  "fst (RenderOpaqueGeometry this False p1 p2 h render) = this"
  by (simp add: RenderOpaqueGeometry_def split: option.split)

lemma PlaceAxes_AllAllocated:
  assumes "Returned (PlaceAxes this input p1 p2) = 1"
  shows "AllAllocated (After (PlaceAxes this input p1 p2))"
proof -
  from assms obtain field where f: "FieldData input = Some field"
    "0 < CountVariables (IndependentVariables this) field"
    "CountVariables (IndependentVariables this) field < VTK_LARGE_ID"
    by (auto simp: PlaceAxes_Returned)
  let ?n = "CountVariables (IndependentVariables this) field"
  have n: "0 \<le> ?n" using f by simp
  show ?thesis
    using f(2) ScanRanges_length [OF n refl]
    by (simp add: PlaceAxes_layout [OF f] Let_def AllAllocated_def PositionAxes_eq [OF n]
        CreateAxes_length [OF n])
qed

lemma PlaceAxes_Consistent:
  assumes "Consistent this"
  shows "Consistent (After (PlaceAxes this input p1 p2))"
proof (cases "Returned (PlaceAxes this input p1 p2) = 1")
  case True
  then show ?thesis by (simp add: Consistent_def PlaceAxes_AllAllocated)
next
  case False
  have "After (PlaceAxes this input p1 p2) = Initialize this"
  proof (cases "FieldData input")
    case None
    then show ?thesis by (simp add: PlaceAxes_no_field)
  next
    case (Some field)
    then have "CountVariables (IndependentVariables this) field \<le> 0 \<or>
        VTK_LARGE_ID \<le> CountVariables (IndependentVariables this) field"
      using False by (auto simp: PlaceAxes_Returned)
    then show ?thesis by (simp add: PlaceAxes_no_data [OF Some])
  qed
  then show ?thesis using Initialize_Consistent [OF assms] by (simp add: Consistent_def)
qed

lemma TitlePosition_Consistent:
  "Consistent (this\<lparr>TitlePosition := tp\<rparr>) = Consistent this"
  by (simp add: Consistent_def AllNull_def AllAllocated_def)

lemma RenderOpaqueGeometry_Consistent:
  assumes "Consistent this"
  shows "Consistent (fst (RenderOpaqueGeometry this stale p1 p2 h render))"
  using assms PlaceAxes_Consistent [OF assms]
  by (simp add: RenderOpaqueGeometry_def Let_def TitlePosition_Consistent
      split: option.split)

lemma PlaceAxes_Initialize:
  "PlaceAxes (Initialize this) input p1 p2 = PlaceAxes this input p1 p2"
  by (simp add: PlaceAxes_def Initialize_idem Let_def Initialize_fields)

section \<open>The claims\<close>

subsection \<open>Claim C1: the vertex on a degenerate axis\<close>

text \<open>
  Claim C1 says that a vertex on an axis whose range is degenerate lies at the vertical
  midpoint \<open>(YMin + YMax) / 2\<close>. Lines 440 and 465 compute \<open>0.5 * (YMax - YMin)\<close>, half the
  height of the box without its lower edge (lemma \<open>VertexY_degenerate\<close>), while the
  other branch (lines 444-446) starts from \<open>YMin\<close>; the two agree only when \<open>YMin\<close> is 0
  (lemma \<open>VertexY_degenerate_midpoint\<close>). On the sample table in the box from
  \<open>(100, 100)\<close> to \<open>(200, 300)\<close> the constant column B has the range \<open>[5, 5]\<close>, and both
  of its vertices (points 1 and 4) lie at height 100, the lower edge, not at the midpoint
  200.
\<close>

theorem degenerate_axis_vertex_off_midpoint:
  "Mins (After (PlaceAxes column_actor sample_input (100, 100) (200, 300))) = Some [0, 5, - 1] \<and>
   Maxs (After (PlaceAxes column_actor sample_input (100, 100) (200, 300))) = Some [10, 5, 1] \<and>
   YMin (After (PlaceAxes column_actor sample_input (100, 100) (200, 300))) = 100 \<and>
   YMax (After (PlaceAxes column_actor sample_input (100, 100) (200, 300))) = 300 \<and>
   Points (PlotData (After (PlaceAxes column_actor sample_input (100, 100) (200, 300)))) ! 1
     = (133, 100, 0) \<and>
   Points (PlotData (After (PlaceAxes column_actor sample_input (100, 100) (200, 300)))) ! 4
     = (133, 100, 0) \<and>
   VertexY 5 5 5 100 300 = 100 \<and>
   (real_of_int 100 + real_of_int 300) / 2 = 200"
  by (simp add: sample_column_layout VertexY_def)

subsection \<open>Claim C2: the cells of the plot\<close>

text \<open>
  Claim C2 says that every polyline has exactly \<^verbatim>\<open>N\<close> vertices, by column and by row. By
  column the cells are as claimed: one per row, each with the \<^verbatim>\<open>N\<close> points of its row in
  the order of the axes (lemma \<open>column_mode_polylines\<close>). By row, line 458 announces
  \<^verbatim>\<open>numColumns\<close> vertices for a cell that lines 459-475 fill with \<^verbatim>\<open>numRows\<close> point ids. On
  the sample table (3 columns, 2 usable rows) \<^verbatim>\<open>N\<close> is 2 and each of the 3 cells is given
  2 point ids, yet each announces 3: the connectivity list is
  \<open>3, 0, 1, 3, 2, 3, 3, 4, 5\<close>, and a reader gets the polylines \<open>0, 1, 3\<close> and \<open>3, 3\<close> and
  \<open>5\<close> instead of \<open>0, 1\<close> and \<open>2, 3\<close> and \<open>4, 5\<close>.
\<close>

theorem row_mode_cells_announce_column_count:
  "CountRows sample_field = 2 \<and> NumberOfComponents sample_field = 3 \<and>
   N (After (PlaceAxes row_actor sample_input (100, 100) (200, 300))) = 2 \<and>
   length (Points (PlotData (After (PlaceAxes row_actor sample_input (100, 100) (200, 300))))) = 6 \<and>
   Lines (PlotData (After (PlaceAxes row_actor sample_input (100, 100) (200, 300))))
     = \<lparr>Ia = [3, 0, 1, 3, 2, 3, 3, 4, 5], NumberOfCells = 3\<rparr> \<and>
   ReadCells (Ia (Lines (PlotData (After (PlaceAxes row_actor sample_input (100, 100) (200, 300))))))
     = [[0, 1, 3], [3, 3], [5]]"
  by (simp add: sample_row_layout CountRows_eq sample_field_def VTK_LARGE_ID_def)

subsection \<open>Claim C3: the positions of the axes\<close>




subsection \<open>Claim C4: a layout without independent variables\<close>

text \<open>
  Claim C4. When the number of independent variables computed from the field is at most
  0 or reaches \<^verbatim>\<open>VTK_LARGE_ID\<close>, \<^verbatim>\<open>PlaceAxes\<close> reports "No field data to plot" and returns
  0; afterwards \<^verbatim>\<open>N\<close> is 0, the arrays \<^verbatim>\<open>Axes\<close>, \<^verbatim>\<open>Mins\<close>, \<^verbatim>\<open>Maxs\<close> and \<^verbatim>\<open>Xs\<close> are \<^verbatim>\<open>NULL\<close>,
  and the plot data is the one the actor held before: no polyline is created. The actor
  is taken in a consistent state, as every operation leaves it.
\<close>

theorem failed_layout_leaves_no_axes:
  assumes "Consistent this"
    and "FieldData input = Some field"
    and "CountVariables (IndependentVariables this) field \<le> 0 \<or>
         VTK_LARGE_ID \<le> CountVariables (IndependentVariables this) field"
  shows "Returned (PlaceAxes this input p1 p2) = 0 \<and>
         Reported (PlaceAxes this input p1 p2) = [''No field data to plot''] \<and>
         N (After (PlaceAxes this input p1 p2)) = 0 \<and>
         Axes (After (PlaceAxes this input p1 p2)) = None \<and>
         Mins (After (PlaceAxes this input p1 p2)) = None \<and>
         Maxs (After (PlaceAxes this input p1 p2)) = None \<and>
         Xs (After (PlaceAxes this input p1 p2)) = None \<and>
         PlotData (After (PlaceAxes this input p1 p2)) = PlotData this"
proof -
  have "PlaceAxes this input p1 p2 =
          \<lparr>After = Initialize this, Reported = [''No field data to plot''], Returned = 0\<rparr>"
    by (rule PlaceAxes_no_data [OF assms(2,3)])
  moreover have "AllNull (Initialize this)"
    by (rule Initialize_Consistent [OF assms(1)])
  ultimately show ?thesis
    by (simp add: AllNull_def Initialize_fields)
qed

text \<open>The sample table with its variable count set to 0, on a fresh actor.\<close>

theorem failed_layout_leaves_no_axes_witness:
  "Returned (PlaceAxes column_actor
      \<lparr>FieldData = Some (sample_field\<lparr>NumberOfComponents := 0\<rparr>)\<rparr> (100, 100) (200, 300)) = 0 \<and>
   N (After (PlaceAxes column_actor
      \<lparr>FieldData = Some (sample_field\<lparr>NumberOfComponents := 0\<rparr>)\<rparr> (100, 100) (200, 300))) = 0 \<and>
   Axes (After (PlaceAxes column_actor
      \<lparr>FieldData = Some (sample_field\<lparr>NumberOfComponents := 0\<rparr>)\<rparr> (100, 100) (200, 300))) = None \<and>
   PlotData (After (PlaceAxes column_actor
      \<lparr>FieldData = Some (sample_field\<lparr>NumberOfComponents := 0\<rparr>)\<rparr> (100, 100) (200, 300)))
     = PlotData column_actor"
proof -
  let ?field = "sample_field\<lparr>NumberOfComponents := 0\<rparr>"
  have h1: "Consistent column_actor"
    by (simp add: Consistent_def AllNull_def column_actor_def vtkParallelCoordinatesActor_New_def)
  have h2: "FieldData \<lparr>FieldData = Some ?field\<rparr> = Some ?field"
    by simp
  have h3: "CountVariables (IndependentVariables column_actor) ?field \<le> 0 \<or>
      VTK_LARGE_ID \<le> CountVariables (IndependentVariables column_actor) ?field"
    by (simp add: CountVariables_def column_actor_def vtkParallelCoordinatesActor_New_def)
  show ?thesis
    using failed_layout_leaves_no_axes [OF h1 h2 h3, of "(100, 100)" "(200, 300)"] by simp
qed

subsection \<open>Claim C5: the height of a vertex\<close>



subsection \<open>Claim C6: the ranges enclose the values\<close>

text \<open>
  Claim C6. After a successful layout every value of the scan lies between the minimum
  and the maximum of its range index: by column the index is the column and the values
  are those of the rows below the row count, by row the index is the row and the values
  are those of its columns.
\<close>

theorem ranges_enclose_values:
  assumes "Returned (PlaceAxes this input p1 p2) = 1" and "FieldData input = Some field"
    and "Mins (After (PlaceAxes this input p1 p2)) = Some mins"
    and "Maxs (After (PlaceAxes this input p1 p2)) = Some maxs"
  shows "(IndependentVariables this = VTK_IV_COLUMN \<longrightarrow>
           (\<forall>j i. 0 \<le> j \<and> j < NumberOfComponents field \<and> 0 \<le> i \<and> i < CountRows field \<longrightarrow>
              mins ! nat j \<le> Component field i j \<and> Component field i j \<le> maxs ! nat j)) \<and>
         (IndependentVariables this = VTK_IV_ROW \<longrightarrow>
           (\<forall>j i. 0 \<le> j \<and> j < CountRows field \<and> 0 \<le> i \<and> i < NumberOfComponents field \<longrightarrow>
              mins ! nat j \<le> Component field j i \<and> Component field j i \<le> maxs ! nat j))"
proof -
  let ?mode = "IndependentVariables this"
  let ?n = "CountVariables ?mode field"
  have f: "0 < ?n" "?n < VTK_LARGE_ID"
    using assms(1,2) by (auto simp: PlaceAxes_Returned)
  have mm: "ScanRanges ?mode field (NumberOfComponents field) (CountRows field) (InitRanges ?n)
              = (mins, maxs)"
    using assms(3,4) by (simp add: PlaceAxes_layout [OF assms(2) f] Let_def prod_eq_iff)
  have "table_inv
          (\<lambda>j i. if ?mode = VTK_IV_COLUMN then Component field i j else Component field j i)
          (if ?mode = VTK_IV_COLUMN then CountRows field else NumberOfComponents field)
          (InitRanges ?n) ?n (mins, maxs)"
    using ScanRanges_table [of ?n ?mode field] f(1) unfolding mm by simp
  then show ?thesis
    by (cases ?mode) (simp_all add: table_inv_def CountVariables_def)
qed

text \<open>By column on the sample table: the value 1 of column C in row 1.\<close>

theorem ranges_enclose_values_witness:
  "Mins (After (PlaceAxes column_actor sample_input (100, 100) (200, 300))) = Some [0, 5, - 1] \<and>
   Maxs (After (PlaceAxes column_actor sample_input (100, 100) (200, 300))) = Some [10, 5, 1] \<and>
   [0, 5, - 1] ! nat 2 \<le> Component sample_field 1 2 \<and>
   Component sample_field 1 2 \<le> [10, 5, 1] ! nat 2"
proof -
  have h1: "Returned (PlaceAxes column_actor sample_input (100, 100) (200, 300)) = 1"
    by (simp add: sample_column_layout)
  have h2: "FieldData sample_input = Some sample_field"
    by (simp add: sample_input_def)
  have h3: "Mins (After (PlaceAxes column_actor sample_input (100, 100) (200, 300)))
              = Some [0, 5, - 1]"
    and h4: "Maxs (After (PlaceAxes column_actor sample_input (100, 100) (200, 300)))
              = Some [10, 5, 1]"
    by (simp_all add: sample_column_layout)
  have col: "IndependentVariables column_actor = VTK_IV_COLUMN"
    by (simp add: column_actor_def vtkParallelCoordinatesActor_New_def)
  have rows: "CountRows sample_field = 2"
    by (simp add: CountRows_eq sample_field_def VTK_LARGE_ID_def)
  have "\<forall>j i. 0 \<le> j \<and> j < NumberOfComponents sample_field \<and> 0 \<le> i \<and> i < CountRows sample_field \<longrightarrow>
          [0, 5, - 1] ! nat j \<le> Component sample_field i j \<and>
          Component sample_field i j \<le> [10, 5, 1] ! nat j"
    using ranges_enclose_values [OF h1 h2 h3 h4] col by simp
  from this [THEN spec, THEN spec, of 2 1] have
    "[0, 5, - 1] ! nat 2 \<le> Component sample_field 1 2 \<and>
     Component sample_field 1 2 \<le> [10, 5, 1] ! nat 2"
    by (simp add: rows) (simp add: sample_field_def)
  then show ?thesis using h3 h4 by simp
qed

subsection \<open>Claim C7: the row count\<close>

text \<open>
  Claim C7. For a field with at least one array, whose tuple counts are ids (at most
  \<^verbatim>\<open>VTK_LARGE_ID\<close>), the row count is the least tuple count: a shorter array caps the
  rows, and no error is raised for it. By row this minimum becomes \<^verbatim>\<open>N\<close>, provided it is
  not negative and stays below \<^verbatim>\<open>VTK_LARGE_ID\<close>.
\<close>

theorem row_count_is_least_tuple_count:
  assumes "ArrayNumberOfTuples field \<noteq> []"
    and "\<forall>t \<in> set (ArrayNumberOfTuples field). t \<le> VTK_LARGE_ID"
  shows "CountRows field = Min (set (ArrayNumberOfTuples field)) \<and>
         (IndependentVariables this = VTK_IV_ROW \<and> FieldData input = Some field \<and>
          0 \<le> Min (set (ArrayNumberOfTuples field)) \<and>
          Min (set (ArrayNumberOfTuples field)) < VTK_LARGE_ID \<longrightarrow>
            N (After (PlaceAxes this input p1 p2)) = Min (set (ArrayNumberOfTuples field)))"
proof -
  let ?ts = "ArrayNumberOfTuples field"
  have ne: "set ?ts \<noteq> {}" using assms(1) by simp
  have "Min (set ?ts) \<in> set ?ts" using ne by (intro Min_in) simp_all
  then have "Min (set ?ts) \<le> VTK_LARGE_ID" using assms(2) by blast
  moreover have "Min (insert VTK_LARGE_ID (set ?ts)) = min VTK_LARGE_ID (Min (set ?ts))"
    by (rule Min_insert) (use ne in simp_all)
  ultimately have rows: "CountRows field = Min (set ?ts)"
    by (simp only: CountRows_eq min_def) simp
  have "N (After (PlaceAxes this input p1 p2)) = Min (set ?ts)"
    if h: "IndependentVariables this = VTK_IV_ROW" "FieldData input = Some field"
      "0 \<le> Min (set ?ts)" "Min (set ?ts) < VTK_LARGE_ID"
  proof (cases "0 < Min (set ?ts)")
    case True
    then show ?thesis
      using h rows by (simp add: PlaceAxes_layout [of input field this] CountVariables_def Let_def)
  next
    case False
    then have z: "Min (set ?ts) = 0" using h(3) by simp
    show ?thesis
      using h rows z
      by (simp add: PlaceAxes_no_data [of input field this] CountVariables_def Initialize_fields)
  qed
  then show ?thesis using rows by blast
qed

text \<open>The sample table has the tuple counts 2, 3 and 2.\<close>

theorem row_count_is_least_tuple_count_witness:
  "CountRows sample_field = Min (set [2, 3, 2]) \<and> CountRows sample_field = 2 \<and>
   N (After (PlaceAxes row_actor sample_input (100, 100) (200, 300))) = 2"
proof -
  have h1: "ArrayNumberOfTuples sample_field \<noteq> []"
    by (simp add: sample_field_def)
  have h2: "\<forall>t \<in> set (ArrayNumberOfTuples sample_field). t \<le> VTK_LARGE_ID"
    by (simp add: sample_field_def VTK_LARGE_ID_def)
  have m: "Min (set (ArrayNumberOfTuples sample_field)) = 2"
    by (simp add: sample_field_def)
  show ?thesis
    using row_count_is_least_tuple_count [OF h1 h2, of row_actor sample_input "(100, 100)" "(200, 300)"]
    unfolding m
    by (simp add: row_actor_def sample_input_def VTK_LARGE_ID_def sample_field_def)
qed

subsection \<open>Claim C8: rebuilding twice\<close>

text \<open>
  Claim C8. A second rebuild on the same field, mode and plot region gives what the first
  gave: \<^verbatim>\<open>PlaceAxes\<close> run on the actor it has left returns the same actor, messages and
  status, so the ranges, positions, axes and polylines are equal value for value; the
  same holds for \<^verbatim>\<open>RenderOpaqueGeometry\<close> when it rebuilds both times, and a second call
  that finds nothing stale leaves the actor as the first one built it.
\<close>

theorem rebuild_twice_same_geometry:
  "PlaceAxes (After (PlaceAxes this input p1 p2)) input p1 p2 = PlaceAxes this input p1 p2 \<and>
   RenderOpaqueGeometry (fst (RenderOpaqueGeometry this True p1 p2 h render)) True p1 p2 h render
     = RenderOpaqueGeometry this True p1 p2 h render \<and>
   fst (RenderOpaqueGeometry (fst (RenderOpaqueGeometry this True p1 p2 h render)) False p1 p2 h
          render)
     = fst (RenderOpaqueGeometry this True p1 p2 h render)"
  by (simp only: PlaceAxes_idem RenderOpaqueGeometry_idem RenderOpaqueGeometry_fresh simp_thms)

subsection \<open>Claim C9: an overlay with nothing to plot\<close>

text \<open>
  Claim C9. When the input is absent or the axis count \<^verbatim>\<open>N\<close> is at most 0,
  \<^verbatim>\<open>RenderOverlay\<close> reports "Nothing to plot!" and returns 0; no child is rendered, since
  the error message is the only event.
\<close>

theorem RenderOverlay_nothing_to_plot:
  assumes "Input this = None \<or> N this \<le> 0"
  shows "RenderOverlay this render = ([ErrorMacro ''Nothing to plot!''], 0)"
  using assms by (simp add: RenderOverlay_def)

text \<open>A fresh actor has no input.\<close>

theorem RenderOverlay_nothing_to_plot_witness:
  "RenderOverlay (vtkParallelCoordinatesActor_New 0 0 (0, 0)) (\<lambda>r. 1) =
     ([ErrorMacro ''Nothing to plot!''], 0)"
  using RenderOverlay_nothing_to_plot [of "vtkParallelCoordinatesActor_New 0 0 (0, 0)" "\<lambda>r. 1"]
  by (simp add: vtkParallelCoordinatesActor_New_def)

subsection \<open>Claim C10: the axis count and the per-axis arrays\<close>

text \<open>
  Claim C10. The arrays \<^verbatim>\<open>Axes\<close>, \<^verbatim>\<open>Mins\<close>, \<^verbatim>\<open>Maxs\<close> and \<^verbatim>\<open>Xs\<close> are either all \<^verbatim>\<open>NULL\<close> with
  \<^verbatim>\<open>N = 0\<close> or all allocated with \<^verbatim>\<open>N > 0\<close> slots each. The constructor establishes this;
  \<^verbatim>\<open>Initialize\<close>, \<^verbatim>\<open>PlaceAxes\<close> and \<^verbatim>\<open>RenderOpaqueGeometry\<close> preserve it (\<^verbatim>\<open>RenderOverlay\<close>
  changes nothing of the actor). From a consistent actor \<^verbatim>\<open>Initialize\<close> gives the
  all-\<^verbatim>\<open>NULL\<close> one; a successful \<^verbatim>\<open>PlaceAxes\<close> gives the all-allocated one; and since
  \<^verbatim>\<open>PlaceAxes\<close> begins with \<^verbatim>\<open>Initialize\<close>, it gives the same on the actor as on the
  initialized actor.
\<close>

theorem axis_arrays_consistent:
  "Consistent (vtkParallelCoordinatesActor_New y0 y1 tp) \<and>
   (Consistent this \<longrightarrow> AllNull (Initialize this) \<and> Consistent (Initialize this)) \<and>
   (Consistent this \<longrightarrow> Consistent (After (PlaceAxes this input p1 p2))) \<and>
   (Returned (PlaceAxes this input p1 p2) = 1 \<longrightarrow>
      AllAllocated (After (PlaceAxes this input p1 p2))) \<and>
   PlaceAxes (Initialize this) input p1 p2 = PlaceAxes this input p1 p2 \<and>
   (Consistent this \<longrightarrow> Consistent (fst (RenderOpaqueGeometry this stale p1 p2 h render)))"
proof -
  have "Consistent (vtkParallelCoordinatesActor_New y0 y1 tp)"
    by (simp add: Consistent_def AllNull_def vtkParallelCoordinatesActor_New_def)
  moreover have "Consistent this \<longrightarrow> AllNull (Initialize this) \<and> Consistent (Initialize this)"
    using Initialize_Consistent [of this] by (simp add: Consistent_def)
  ultimately show ?thesis
    using PlaceAxes_Consistent [of this input p1 p2] PlaceAxes_AllAllocated [of this input p1 p2]
      PlaceAxes_Initialize [of this input p1 p2]
      RenderOpaqueGeometry_Consistent [of this stale p1 p2 h render]
    by blast
qed

text \<open>The sample layout: allocated after \<^verbatim>\<open>PlaceAxes\<close>, released by \<^verbatim>\<open>Initialize\<close>.\<close>

theorem axis_arrays_consistent_witness:
  "AllAllocated (After (PlaceAxes column_actor sample_input (100, 100) (200, 300))) \<and>
   AllNull (Initialize (After (PlaceAxes column_actor sample_input (100, 100) (200, 300)))) \<and>
   Consistent (fst (RenderOpaqueGeometry column_actor True (100, 100) (200, 300) 12 (\<lambda>r. 1)))"
proof -
  let ?this1 = "After (PlaceAxes column_actor sample_input (100, 100) (200, 300))"
  have c0: "Consistent column_actor"
    by (simp add: Consistent_def AllNull_def column_actor_def vtkParallelCoordinatesActor_New_def)
  have ok: "Returned (PlaceAxes column_actor sample_input (100, 100) (200, 300)) = 1"
    by (simp add: sample_column_layout)
  have c1: "Consistent ?this1"
    using axis_arrays_consistent [of 0 0 "(0, 0)" column_actor sample_input "(100, 100)" "(200, 300)"
        True 12 "\<lambda>r. 1"] c0 by simp
  have a1: "AllAllocated ?this1"
    using axis_arrays_consistent [of 0 0 "(0, 0)" column_actor sample_input "(100, 100)" "(200, 300)"
        True 12 "\<lambda>r. 1"] ok by simp
  have n1: "AllNull (Initialize ?this1)"
    using axis_arrays_consistent [of 0 0 "(0, 0)" ?this1 sample_input "(100, 100)" "(200, 300)"
        True 12 "\<lambda>r. 1"] c1 by simp
  have r1: "Consistent (fst (RenderOpaqueGeometry column_actor True (100, 100) (200, 300) 12 (\<lambda>r. 1)))"
    using axis_arrays_consistent [of 0 0 "(0, 0)" column_actor sample_input "(100, 100)" "(200, 300)"
        True 12 "\<lambda>r. 1"] c0 by simp
  show ?thesis using a1 n1 r1 by simp
qed

end
